theory Spec2Isabelle
  imports Complex_Main "HOL-Library.Word" "HOL-Library.Log_Nat"
begin

section \<open>The detection pipeline of \<open>server/inference_server.py\<close>\<close>

text \<open>
  The theory embeds the class \<open>ObjectDetectionServer\<close>: the letterbox
  preprocessor (\<open>preprocess_image\<close>), the decoder of raw model output
  (\<open>postprocess_detections\<close>), the colour heuristic (\<open>fallback_detection\<close>) and
  the session operation \<open>detect\<close>.

  Conventions of the embedding.
  \<^item> A NumPy array is its shape together with its element function; elements
    outside the shape are never read.
  \<^item> An exception is a value of \<open>py_error\<close>; a function that can raise returns
    \<open>py_error + 'a\<close> with \<open>Inl\<close> for the exception.
  \<^item> The functions of OpenCV (\<open>cv2\<close>) and the ONNX session are not code of the
    repository. They are parameters of the model: a record \<open>cv2\<close> of functions
    and a \<open>session\<close> field holding the \<open>run\<close> function.
  \<^item> Python's binary64 arithmetic is rounded explicitly (\<open>fl64\<close>) in the
    letterbox computation, where an integer truncation depends on the last bit.
    The decoder's arithmetic on the model's numbers is exact arithmetic on
    \<open>real\<close>: its comparisons and clamps are monotone, and no statement below
    depends on the rounding there. NumPy's division by zero gives an infinity or
    a NaN without raising; the model has HOL's \<open>x / 0 = 0\<close> in that place and no
    statement below reads it.
\<close>

subsection \<open>Exceptions\<close>

datatype py_error = IndexError | ValueError | ZeroDivisionError | CvError | BackendError

subsection \<open>Arrays, images, tensors\<close>

text \<open>A two-dimensional float array of shape \<open>(nrows, ncols)\<close>.\<close>

record ndarray2 =
  nrows :: nat
  ncols :: nat
  at2 :: "nat \<Rightarrow> nat \<Rightarrow> real"

text \<open>
  One output array of the backend has shape \<open>[batch, N, 5 + C]\<close>; its first axis is
  a list, so that \<open>outputs[0][0]\<close> raises when either list is empty.
\<close>

type_synonym ndarray3 = "ndarray2 list"

text \<open>An RGB image: \<open>image.shape[:2] = (img_h, img_w)\<close>, pixels \<open>uint8\<close>,
  addressed by row, column, channel.\<close>

record image =
  img_h :: nat
  img_w :: nat
  img_px :: "nat \<Rightarrow> nat \<Rightarrow> nat \<Rightarrow> 8 word"

text \<open>The float32 tensor \<open>[batch, channels, height, width]\<close>.\<close>

record tensor =
  t_shape :: "nat \<times> nat \<times> nat \<times> nat"
  t_at :: "nat \<Rightarrow> nat \<Rightarrow> nat \<Rightarrow> nat \<Rightarrow> real"

subsection \<open>Detections and the server object\<close>

record detection =
  label :: string
  score :: real
  xmin :: real
  ymin :: real
  xmax :: real
  ymax :: real

type_synonym inference_session = "string \<Rightarrow> tensor \<Rightarrow> py_error + ndarray3 list"

record server =
  confidence_threshold :: real
  model_path :: "string option"
  session :: "inference_session option"
  input_name :: string
  input_shape :: "nat \<times> nat"
  class_names :: "string list"
  inference_count :: nat
  total_inference_time :: real

definition get_coco_class_names :: "string list" where
  "get_coco_class_names =
    [''person'', ''bicycle'', ''car'', ''motorcycle'', ''airplane'', ''bus'', ''train'', ''truck'',
     ''boat'', ''traffic light'', ''fire hydrant'', ''stop sign'', ''parking meter'', ''bench'',
     ''bird'', ''cat'', ''dog'', ''horse'', ''sheep'', ''cow'', ''elephant'', ''bear'', ''zebra'',
     ''giraffe'', ''backpack'', ''umbrella'', ''handbag'', ''tie'', ''suitcase'', ''frisbee'',
     ''skis'', ''snowboard'', ''sports ball'', ''kite'', ''baseball bat'', ''baseball glove'',
     ''skateboard'', ''surfboard'', ''tennis racket'', ''bottle'', ''wine glass'', ''cup'',
     ''fork'', ''knife'', ''spoon'', ''bowl'', ''banana'', ''apple'', ''sandwich'', ''orange'',
     ''broccoli'', ''carrot'', ''hot dog'', ''pizza'', ''donut'', ''cake'', ''chair'', ''couch'',
     ''potted plant'', ''bed'', ''dining table'', ''toilet'', ''tv'', ''laptop'', ''mouse'',
     ''remote'', ''keyboard'', ''cell phone'', ''microwave'', ''oven'', ''toaster'', ''sink'',
     ''refrigerator'', ''book'', ''clock'', ''vase'', ''scissors'', ''teddy bear'', ''hair drier'',
     ''toothbrush'']"

text \<open>The object \<open>__init__\<close> leaves behind when no model file is found:
  \<open>session = None\<close>, the default input shape, zeroed counters.\<close>

definition init_server :: "real \<Rightarrow> server" where
  "init_server threshold =
    \<lparr>confidence_threshold = threshold, model_path = None, session = None,
     input_name = [], input_shape = (640, 640), class_names = get_coco_class_names,
     inference_count = 0, total_inference_time = 0\<rparr>"

subsection \<open>The decoder: \<open>postprocess_detections\<close>\<close>

text \<open>Python's \<open>str\<close> of a non-negative integer, for the label \<open>class_<id>\<close>.\<close>

fun str_of_nat :: "nat \<Rightarrow> string" where
  "str_of_nat n =
    (if n < 10 then [''0123456789'' ! n]
     else str_of_nat (n div 10) @ [''0123456789'' ! (n mod 10)])"

declare str_of_nat.simps [simp del]

text \<open>\<open>np.max\<close> and \<open>np.argmax\<close> (the first position of the maximum) of a
  non-empty row.\<close>

definition np_max :: "real list \<Rightarrow> real" where
  "np_max xs = fold max (tl xs) (hd xs)"

definition np_argmax :: "real list \<Rightarrow> nat" where
  "np_argmax xs = length (takeWhile (\<lambda>v. v \<noteq> np_max xs) xs)"

text \<open>\<open>valid_predictions[:, 5:]\<close>, one row of it.\<close>

definition class_scores :: "ndarray2 \<Rightarrow> nat \<Rightarrow> real list" where
  "class_scores predictions i = map (at2 predictions i) [5..<ncols predictions]"

text \<open>The body of the \<open>for\<close> loop at one surviving row: the detection it
  appends, if the final confidence passes the threshold.\<close>

definition decode_row ::
  "server \<Rightarrow> ndarray2 \<Rightarrow> nat \<times> nat \<Rightarrow> real \<Rightarrow> int \<times> int \<Rightarrow> nat \<Rightarrow> detection option" where
  "decode_row self predictions original_shape scale padding i =
    (let class_id = np_argmax (class_scores predictions i);
         conf = at2 predictions i 4 * np_max (class_scores predictions i);
         (pad_x, pad_y) = padding;
         (orig_h, orig_w) = original_shape
     in if conf > confidence_threshold self then
          let x_center = (at2 predictions i 0 - of_int pad_x) / scale;
              y_center = (at2 predictions i 1 - of_int pad_y) / scale;
              width = at2 predictions i 2 / scale;
              height = at2 predictions i 3 / scale;
              x1 = max 0 ((x_center - width / 2) / real orig_w);
              y1 = max 0 ((y_center - height / 2) / real orig_h);
              x2 = min 1 ((x_center + width / 2) / real orig_w);
              y2 = min 1 ((y_center + height / 2) / real orig_h);
              class_name = (if class_id < length (class_names self)
                            then class_names self ! class_id
                            else ''class_'' @ str_of_nat class_id)
          in Some \<lparr>label = class_name, score = conf,
                   xmin = x1, ymin = y1, xmax = x2, ymax = y2\<rparr>
        else None)"

text \<open>The loop over the surviving rows, with the list \<open>detections\<close> it appends to.\<close>

fun decode_loop ::
  "server \<Rightarrow> ndarray2 \<Rightarrow> nat \<times> nat \<Rightarrow> real \<Rightarrow> int \<times> int \<Rightarrow> nat list \<Rightarrow>
   detection list \<Rightarrow> detection list" where
  "decode_loop self predictions original_shape scale padding [] detections = detections"
| "decode_loop self predictions original_shape scale padding (i # rest) detections =
    decode_loop self predictions original_shape scale padding rest
      (case decode_row self predictions original_shape scale padding i of
         Some d \<Rightarrow> detections @ [d]
       | None \<Rightarrow> detections)"

text \<open>
  The \<open>try\<close> block. The result is the list \<open>detections\<close> as it stands when the
  block is left, and the exception that left it, if any:
  \<^item> \<open>outputs[0][0]\<close> raises \<open>IndexError\<close> on an empty list or an empty batch;
  \<^item> \<open>predictions[:, 4]\<close> raises \<open>IndexError\<close> when there are fewer than five
    columns;
  \<^item> no row above the threshold: the early \<open>return detections\<close>;
  \<^item> \<open>np.argmax\<close> over an empty axis (no class column) raises \<open>ValueError\<close>.
\<close>

definition decode_try ::
  "server \<Rightarrow> ndarray3 list \<Rightarrow> nat \<times> nat \<Rightarrow> real \<Rightarrow> int \<times> int \<Rightarrow>
   detection list \<times> py_error option" where
  "decode_try self outputs original_shape scale padding =
    (case outputs of
       [] \<Rightarrow> ([], Some IndexError)
     | out0 # _ \<Rightarrow>
        (case out0 of
           [] \<Rightarrow> ([], Some IndexError)
         | predictions # _ \<Rightarrow>
            if ncols predictions \<le> 4 then ([], Some IndexError)
            else
              let valid_indices =
                    filter (\<lambda>i. at2 predictions i 4 > confidence_threshold self)
                      [0..<nrows predictions]
              in if valid_indices = [] then ([], None)
                 else if ncols predictions = 5 then ([], Some ValueError)
                 else (decode_loop self predictions original_shape scale padding
                         valid_indices [], None)))"

text \<open>\<open>except Exception\<close> logs and falls through to \<open>return detections\<close>: the
  function returns the list in either case.\<close>

definition postprocess_detections ::
  "server \<Rightarrow> ndarray3 list \<Rightarrow> nat \<times> nat \<Rightarrow> real \<Rightarrow> int \<times> int \<Rightarrow> detection list" where
  "postprocess_detections self outputs original_shape scale padding =
    fst (decode_try self outputs original_shape scale padding)"

subsection \<open>Python numbers\<close>

text \<open>
  Rounding of a real number to the nearest binary64 value, ties to even: what one
  Python float operation returns for the exact result \<open>x\<close>. The exponent range is
  not bounded (no overflow, no subnormal numbers).
  \<open>binade x\<close> is the exponent \<open>b\<close> with \<open>2^b \<le> x < 2^(b+1)\<close> for \<open>x > 0\<close>;
  \<open>rne\<close> rounds to the nearest integer, a tie to the even one.
\<close>

definition binade :: "real \<Rightarrow> int" where
  "binade x = (if 1 \<le> x then bitlen \<lfloor>x\<rfloor> - 1 else - bitlen (\<lceil>1 / x\<rceil> - 1))"

definition rne :: "real \<Rightarrow> int" where
  "rne y =
    (let f = \<lfloor>y\<rfloor>; r = y - of_int f
     in if r < 1 / 2 then f else if 1 / 2 < r then f + 1
        else if even f then f else f + 1)"

definition fl64 :: "real \<Rightarrow> real" where
  "fl64 x =
    (if x = 0 then 0
     else let e = binade \<bar>x\<bar> - 52 in of_int (rne (x / 2 powi e)) * 2 powi e)"

text \<open>\<open>int(x)\<close> on a float truncates towards zero.\<close>

definition py_int :: "real \<Rightarrow> int" where
  "py_int x = (if 0 \<le> x then \<lfloor>x\<rfloor> else \<lceil>x\<rceil>)"

text \<open>
  The bounds of the slice \<open>start:stop\<close> on an axis of length \<open>n\<close>: a negative index
  counts from the end, both ends are clipped to the axis, and a slice whose stop
  lies before its start is empty.
\<close>

definition slice_bounds :: "int \<Rightarrow> int \<Rightarrow> nat \<Rightarrow> nat \<times> nat" where
  "slice_bounds start stop n =
    (let norm = (\<lambda>i. if i < 0 then max 0 (i + int n) else min i (int n));
         lo = norm start; hi = norm stop
     in (nat lo, nat (max lo hi)))"

text \<open>An axis of length \<open>k\<close> can be assigned to an axis of length \<open>n\<close> when
  the lengths agree or \<open>k = 1\<close> (NumPy broadcasting).\<close>

definition broadcastable :: "nat \<Rightarrow> nat \<Rightarrow> bool" where
  "broadcastable k n \<longleftrightarrow> k = n \<or> k = 1"

subsection \<open>OpenCV, as a parameter\<close>

record mask =
  mask_h :: nat
  mask_w :: nat
  mask_px :: "nat \<Rightarrow> nat \<Rightarrow> 8 word"

type_synonym contour = "(int \<times> int) list"

text \<open>
  The functions of \<open>cv2\<close> the server calls. \<open>cvtColor\<close> and \<open>resize\<close> raise on
  input they reject (an empty image, an empty target size); the others are total
  on what the former return. \<open>findContours\<close> stands for the call with
  \<open>RETR_EXTERNAL\<close> and \<open>CHAIN_APPROX_SIMPLE\<close>, \<open>resize\<close> for the call with
  \<open>INTER_LINEAR\<close> and the target size \<open>(width, height)\<close>.
\<close>

record cv2 =
  cvtColor_RGB2HSV :: "image \<Rightarrow> py_error + image"
  inRange :: "image \<Rightarrow> nat \<times> nat \<times> nat \<Rightarrow> nat \<times> nat \<times> nat \<Rightarrow> mask"
  bitwise_or :: "mask \<Rightarrow> mask \<Rightarrow> mask"
  findContours :: "mask \<Rightarrow> contour list"
  contourArea :: "contour \<Rightarrow> real"
  boundingRect :: "contour \<Rightarrow> int \<times> int \<times> int \<times> int"
  resize :: "image \<Rightarrow> int \<times> int \<Rightarrow> py_error + image"

subsection \<open>The preprocessor: \<open>preprocess_image\<close>\<close>

text \<open>
  Lines 106 to 111: the scale and the size of the resized image. \<open>target_w / w\<close> and
  \<open>target_h / h\<close> divide two Python integers and raise \<open>ZeroDivisionError\<close> on a
  zero divisor; the quotient is the correctly rounded float. \<open>w * scale\<close> converts
  \<open>w\<close> to a float and multiplies.
\<close>

definition letterbox_dims :: "nat \<Rightarrow> nat \<Rightarrow> nat \<Rightarrow> nat \<Rightarrow> py_error + (real \<times> int \<times> int)" where
  "letterbox_dims h w target_h target_w =
    (if w = 0 then Inl ZeroDivisionError
     else if h = 0 then Inl ZeroDivisionError
     else
       let scale = min (fl64 (real target_w / real w)) (fl64 (real target_h / real h));
           new_w = py_int (fl64 (fl64 (real w) * scale));
           new_h = py_int (fl64 (fl64 (real h) * scale))
       in Inr (scale, new_w, new_h))"

text \<open>
  The canvas after \<open>padded[pad_y:pad_y + new_h, pad_x:pad_x + new_w] = resized\<close>,
  where the slices are rows \<open>y0..<y1\<close> and columns \<open>x0..<x1\<close>: the fill value 114
  outside, the resized image (broadcast along an axis of length one) inside.
\<close>

definition place_on_canvas :: "image \<Rightarrow> nat \<times> nat \<Rightarrow> nat \<times> nat \<Rightarrow> nat \<Rightarrow> nat \<Rightarrow> nat \<Rightarrow> 8 word" where
  "place_on_canvas resized ys xs y x c =
    (let (y0, y1) = ys; (x0, x1) = xs
     in if y0 \<le> y \<and> y < y1 \<and> x0 \<le> x \<and> x < x1
        then img_px resized (if img_h resized = 1 then 0 else y - y0)
               (if img_w resized = 1 then 0 else x - x0) c
        else 114)"

definition preprocess_image ::
  "cv2 \<Rightarrow> server \<Rightarrow> image \<Rightarrow> py_error + (tensor \<times> real \<times> (int \<times> int))" where
  "preprocess_image cv self img =
    (let h = img_h img; w = img_w img;
         (target_h, target_w) = input_shape self
     in case letterbox_dims h w target_h target_w of
          Inl e \<Rightarrow> Inl e
        | Inr (scale, new_w, new_h) \<Rightarrow>
           (case resize cv img (new_w, new_h) of
              Inl e \<Rightarrow> Inl e
            | Inr resized \<Rightarrow>
               let pad_x = (int target_w - new_w) div 2;
                   pad_y = (int target_h - new_h) div 2;
                   ys = slice_bounds pad_y (pad_y + new_h) target_h;
                   xs = slice_bounds pad_x (pad_x + new_w) target_w
               in if \<not> (broadcastable (img_h resized) (snd ys - fst ys) \<and>
                         broadcastable (img_w resized) (snd xs - fst xs))
                  then Inl ValueError
                  else
                    let padded = place_on_canvas resized ys xs;
                        input_tensor =
                          \<lparr>t_shape = (1, 3, target_h, target_w),
                           t_at = (\<lambda>b c y x. real (unat (padded y x c)) / 255)\<rparr>
                    in Inr (input_tensor, scale, (pad_x, pad_y))))"

subsection \<open>The heuristic: \<open>fallback_detection\<close>\<close>

text \<open>
  The loop over the contours, with the list \<open>detections\<close> it appends to. The
  quotients \<open>x / w\<close> and \<open>y / h\<close> divide Python integers: a zero divisor raises
  \<open>ZeroDivisionError\<close>, which nothing in \<open>fallback_detection\<close> catches.
\<close>

fun fallback_loop ::
  "cv2 \<Rightarrow> nat \<Rightarrow> nat \<Rightarrow> contour list \<Rightarrow> detection list \<Rightarrow> py_error + detection list" where
  "fallback_loop cv h w [] detections = Inr detections"
| "fallback_loop cv h w (contour # rest) detections =
    (let area = contourArea cv contour
     in if area > 500 then
          (case boundingRect cv contour of
             (x, y, cw, ch) \<Rightarrow>
               if w = 0 \<or> h = 0 then Inl ZeroDivisionError
               else fallback_loop cv h w rest
                      (detections @
                        [\<lparr>label = ''red_object'', score = 8 / 10,
                          xmin = of_int x / real w, ymin = of_int y / real h,
                          xmax = of_int (x + cw) / real w,
                          ymax = of_int (y + ch) / real h\<rparr>]))
        else fallback_loop cv h w rest detections)"

definition fallback_detection :: "cv2 \<Rightarrow> server \<Rightarrow> image \<Rightarrow> py_error + detection list" where
  "fallback_detection cv self img =
    (case cvtColor_RGB2HSV cv img of
       Inl e \<Rightarrow> Inl e
     | Inr hsv \<Rightarrow>
        let lower_red1 = (0, 50, 50); upper_red1 = (10, 255, 255);
            lower_red2 = (170, 50, 50); upper_red2 = (180, 255, 255);
            mask1 = inRange cv hsv lower_red1 upper_red1;
            mask2 = inRange cv hsv lower_red2 upper_red2;
            mask = bitwise_or cv mask1 mask2;
            contours = findContours cv mask
        in fallback_loop cv (img_h img) (img_w img) contours [])"

subsection \<open>The session operation: \<open>detect\<close>\<close>

text \<open>The statements of the \<open>try\<close> block up to the update of the counters: the
  detections of the dispatched path, or the exception that leaves the block.\<close>

definition detect_dispatch :: "cv2 \<Rightarrow> server \<Rightarrow> image \<Rightarrow> py_error + detection list" where
  "detect_dispatch cv self img =
    (case session self of
       Some run \<Rightarrow>
        (case preprocess_image cv self img of
           Inl e \<Rightarrow> Inl e
         | Inr (input_tensor, scale, padding) \<Rightarrow>
            (case run (input_name self) input_tensor of
               Inl e \<Rightarrow> Inl e
             | Inr outputs \<Rightarrow>
                Inr (postprocess_detections self outputs (img_h img, img_w img)
                       scale padding)))
     | None \<Rightarrow> fallback_detection cv self img)"

text \<open>
  \<open>detect\<close> returns the detections and the server object after the call.
  \<open>start_time\<close> is the clock read before the \<open>try\<close>, \<open>end_time\<close> the clock read
  after the dispatched path has returned. The handler \<open>except Exception\<close> returns
  the empty list.
\<close>

definition detect ::
  "cv2 \<Rightarrow> server \<Rightarrow> image \<Rightarrow> real \<Rightarrow> real \<Rightarrow> detection list \<times> server" where
  "detect cv self img start_time end_time =
    (case detect_dispatch cv self img of
       Inr detections \<Rightarrow>
        (let inference_time = end_time - start_time
         in (detections,
             self\<lparr>inference_count := inference_count self + 1,
                  total_inference_time := total_inference_time self + inference_time\<rparr>))
     | Inl e \<Rightarrow> ([], self))"

subsection \<open>Vocabulary of the statements\<close>

text \<open>The detection the fallback loop appends for a bounding rectangle
  \<open>(x, y, cw, ch)\<close> in an image of height \<open>h\<close> and width \<open>w\<close>.\<close>

definition detection_of_rect :: "nat \<Rightarrow> nat \<Rightarrow> int \<times> int \<times> int \<times> int \<Rightarrow> detection" where
  "detection_of_rect h w r =
    (case r of (x, y, cw, ch) \<Rightarrow>
      \<lparr>label = ''red_object'', score = 8 / 10,
       xmin = of_int x / real w, ymin = of_int y / real h,
       xmax = of_int (x + cw) / real w, ymax = of_int (y + ch) / real h\<rparr>)"

text \<open>The contours the fallback extracts from the red mask of an HSV image.\<close>

definition red_contours :: "cv2 \<Rightarrow> image \<Rightarrow> contour list" where
  "red_contours cv hsv =
    findContours cv (bitwise_or cv (inRange cv hsv (0, 50, 50) (10, 255, 255))
                                   (inRange cv hsv (170, 50, 50) (180, 255, 255)))"

text \<open>A bounding rectangle that lies in an image of height \<open>h\<close> and width \<open>w\<close>.\<close>

definition rect_in_image :: "nat \<Rightarrow> nat \<Rightarrow> int \<times> int \<times> int \<times> int \<Rightarrow> bool" where
  "rect_in_image h w r =
    (case r of (x, y, cw, ch) \<Rightarrow>
       0 \<le> x \<and> 0 \<le> y \<and> 0 \<le> cw \<and> 0 \<le> ch \<and> x + cw \<le> int w \<and> y + ch \<le> int h)"


definition in_unit_square :: "detection \<Rightarrow> bool" where
  "in_unit_square d \<longleftrightarrow>
     0 \<le> xmin d \<and> xmin d \<le> 1 \<and> 0 \<le> ymin d \<and> ymin d \<le> 1 \<and>
     0 \<le> xmax d \<and> xmax d \<le> 1 \<and> 0 \<le> ymax d \<and> ymax d \<le> 1"




subsection \<open>Concrete inputs\<close>

definition array_of_rows :: "real list list \<Rightarrow> ndarray2" where
  "array_of_rows rows =
    \<lparr>nrows = length rows, ncols = length (hd rows), at2 = (\<lambda>i j. rows ! i ! j)\<rparr>"

text \<open>One candidate of 10 by 10 model pixels centred at \<open>(320, 630)\<close>: in a 640 by
  640 letterbox of a 640 by 480 image it lies in the lower padding band.\<close>

definition padding_band_outputs :: "ndarray3 list" where
  "padding_band_outputs = [[array_of_rows [[320, 630, 10, 10, 9 / 10, 9 / 10]]]]"


text \<open>Two candidates, two classes; the final confidences are 0.81 and 0.56.\<close>

definition two_row_predictions :: ndarray2 where
  "two_row_predictions =
    array_of_rows [[320, 240, 100, 100, 9 / 10, 1 / 10, 9 / 10],
                   [100, 100, 50, 50, 7 / 10, 8 / 10, 2 / 10]]"


definition two_row_outputs :: "ndarray3 list" where
  "two_row_outputs = [[two_row_predictions]]"

text \<open>One candidate and no class column.\<close>

definition no_class_outputs :: "ndarray3 list" where
  "no_class_outputs = [[array_of_rows [[320, 240, 10, 10, 9 / 10]]]]"

definition blank_image :: "nat \<Rightarrow> nat \<Rightarrow> image" where
  "blank_image h w = \<lparr>img_h = h, img_w = w, img_px = (\<lambda>y x c. 0)\<rparr>"

text \<open>
  A stand-in for OpenCV, to instantiate the statements: the colour conversion
  rejects an empty image and is the identity otherwise, every mask has the one
  square contour with corners \<open>(10, 10)\<close> and \<open>(39, 39)\<close> (30 by 30 pixels, contour
  area \<open>29 * 29\<close>), and \<open>resize\<close> rejects an empty target size and returns a black
  image of the requested size otherwise.
\<close>

definition toy_cv2 :: cv2 where
  "toy_cv2 =
    \<lparr>cvtColor_RGB2HSV =
       (\<lambda>img. if img_h img = 0 \<or> img_w img = 0 then Inl CvError else Inr img),
     inRange = (\<lambda>hsv lo hi. \<lparr>mask_h = img_h hsv, mask_w = img_w hsv, mask_px = (\<lambda>y x. 0)\<rparr>),
     bitwise_or = (\<lambda>a b. a),
     findContours = (\<lambda>m. [[(10, 10), (10, 39), (39, 39), (39, 10)]]),
     contourArea = (\<lambda>c. 841),
     boundingRect = (\<lambda>c. (10, 10, 30, 30)),
     resize = (\<lambda>img (w, h). if w \<le> 0 \<or> h \<le> 0 then Inl CvError
                 else Inr \<lparr>img_h = nat h, img_w = nat w, img_px = (\<lambda>y x c. 0)\<rparr>)\<rparr>"

text \<open>A server whose backend raises on every call.\<close>

definition failing_backend_server :: server where
  "failing_backend_server =
    (init_server (1 / 2))\<lparr>session := Some (\<lambda>name t. Inl BackendError),
                          input_name := ''images''\<rparr>"

text \<open>A server whose backend returns the two candidates above on every call.\<close>

definition stub_backend_server :: server where
  "stub_backend_server =
    (init_server (1 / 2))\<lparr>session := Some (\<lambda>name t. Inr two_row_outputs),
                          input_name := ''images''\<rparr>"

section \<open>The decoder\<close>

lemma decode_loop_append:
  "decode_loop self p sh sc pd idx dets = dets @ List.map_filter (decode_row self p sh sc pd) idx"
  by (induction idx arbitrary: dets) (simp_all split: option.split)

lemma decode_row_Some_iff:
  "(decode_row self p sh sc pd i \<noteq> None) =
   (confidence_threshold self < at2 p i 4 * np_max (class_scores p i))"
  by (simp add: decode_row_def Let_def split: prod.split)

lemma length_map_filter:
  "length (List.map_filter f xs) = length (filter (\<lambda>x. f x \<noteq> None) xs)"
  by (induction xs) (auto split: option.split)

lemma length_decode_loop:
  "length (decode_loop self p sh sc pd idx []) =
     length (filter (\<lambda>i. confidence_threshold self < at2 p i 4 * np_max (class_scores p i)) idx)"
proof -
  have "(\<lambda>i. decode_row self p sh sc pd i \<noteq> None) =
        (\<lambda>i. confidence_threshold self < at2 p i 4 * np_max (class_scores p i))"
    by (rule ext) (rule decode_row_Some_iff)
  then show ?thesis
    by (simp only: decode_loop_append length_map_filter append_Nil)
qed

lemma length_filter_mono:
  "(\<And>x. x \<in> set xs \<Longrightarrow> P x \<Longrightarrow> Q x) \<Longrightarrow> length (filter P xs) \<le> length (filter Q xs)"
  by (induction xs) auto

text \<open>The number of detections: the rows that pass both filters, and none when
  the \<open>try\<close> block is left early.\<close>

lemma length_postprocess:
  "length (postprocess_detections self outputs sh sc pd) =
    (case outputs of [] \<Rightarrow> 0 | out0 # _ \<Rightarrow>
      (case out0 of [] \<Rightarrow> 0 | p # _ \<Rightarrow>
         if ncols p \<le> 5 then 0
         else length (filter (\<lambda>i. confidence_threshold self < at2 p i 4 \<and>
                 confidence_threshold self < at2 p i 4 * np_max (class_scores p i))
                 [0..<nrows p])))"
  by (auto simp add: postprocess_detections_def decode_try_def Let_def length_decode_loop
      filter_empty_conv split: list.split)

text \<open>
  C7. For a fixed raw output, transform context and original shape, raising the
  confidence threshold from \<open>t1\<close> to \<open>t2\<close> never increases the number of
  detections the decoder returns.
\<close>

theorem postprocess_threshold_monotone:
  "t1 \<le> t2 \<Longrightarrow>
   length (postprocess_detections (self\<lparr>confidence_threshold := t2\<rparr>) outputs
             original_shape scale padding)
   \<le> length (postprocess_detections (self\<lparr>confidence_threshold := t1\<rparr>) outputs
               original_shape scale padding)"
  by (auto simp add: length_postprocess split: list.split intro!: length_filter_mono)

theorem postprocess_threshold_monotone_witness:
  "(1 / 2 :: real) \<le> 6 / 10 \<and>
   length (postprocess_detections ((init_server (1 / 2))\<lparr>confidence_threshold := 6 / 10\<rparr>)
             two_row_outputs (480, 640) 1 (0, 80))
   \<le> length (postprocess_detections ((init_server (1 / 2))\<lparr>confidence_threshold := 1 / 2\<rparr>)
               two_row_outputs (480, 640) 1 (0, 80)) \<and>
   length (postprocess_detections ((init_server (1 / 2))\<lparr>confidence_threshold := 6 / 10\<rparr>)
             two_row_outputs (480, 640) 1 (0, 80)) = 1 \<and>
   length (postprocess_detections ((init_server (1 / 2))\<lparr>confidence_threshold := 1 / 2\<rparr>)
             two_row_outputs (480, 640) 1 (0, 80)) = 2"
  using postprocess_threshold_monotone
    [of "1 / 2" "6 / 10" "init_server (1 / 2)" two_row_outputs "(480, 640)" 1 "(0, 80)"]
  by (simp add: length_postprocess two_row_outputs_def two_row_predictions_def
      array_of_rows_def init_server_def class_scores_def np_max_def)

text \<open>
  C3. Whenever an exception is raised while decoding, the decoder returns the
  empty list, not a partial one. The exception does not reach the caller:
  \<open>postprocess_detections\<close> returns a list on every input.
\<close>

theorem postprocess_exception_gives_empty:
  "snd (decode_try self outputs original_shape scale padding) = Some e \<Longrightarrow>
   postprocess_detections self outputs original_shape scale padding = []"
  by (auto simp add: postprocess_detections_def decode_try_def Let_def
      split: list.splits if_splits)

theorem postprocess_exception_gives_empty_witness:
  "snd (decode_try (init_server (1 / 2)) no_class_outputs (480, 640) 1 (0, 80)) = Some ValueError \<and>
   postprocess_detections (init_server (1 / 2)) no_class_outputs (480, 640) 1 (0, 80) = []"
  using postprocess_exception_gives_empty
    [of "init_server (1 / 2)" no_class_outputs "(480, 640)" 1 "(0, 80)" ValueError]
  by (simp add: decode_try_def no_class_outputs_def array_of_rows_def init_server_def Let_def)

text \<open>
  C1. The claim is that every coordinate of every returned detection lies in
  \<open>[0, 1]\<close>. The decoder clamps \<open>xmin\<close> and \<open>ymin\<close> from below only and \<open>xmax\<close> and
  \<open>ymax\<close> from above only. For a 640 by 480 image letterboxed to 640 by 640
  (scale 1, padding \<open>(0, 80)\<close>), the candidate in the lower padding band is
  returned with \<open>ymin = 109 / 96\<close>, which is above 1.
\<close>

theorem postprocess_padding_band_ymin_above_one:
  "postprocess_detections (init_server (1 / 2)) padding_band_outputs (480, 640) 1 (0, 80) =
     [\<lparr>label = ''person'', score = 81 / 100,
       xmin = 63 / 128, ymin = 109 / 96, xmax = 65 / 128, ymax = 1\<rparr>]"
  by (simp add: postprocess_detections_def decode_try_def decode_row_def
      padding_band_outputs_def array_of_rows_def init_server_def get_coco_class_names_def
      class_scores_def np_max_def np_argmax_def Let_def)

section \<open>The fallback heuristic\<close>

lemma fallback_loop_append:
  "0 < h \<Longrightarrow> 0 < w \<Longrightarrow>
   fallback_loop cv h w cs dets =
     Inr (dets @ map (\<lambda>c. detection_of_rect h w (boundingRect cv c))
                   (filter (\<lambda>c. contourArea cv c > 500) cs))"
  by (induction cs arbitrary: dets) (simp_all add: detection_of_rect_def Let_def split: prod.split)

lemma fallback_detection_eq:
  "cvtColor_RGB2HSV cv img = Inr hsv \<Longrightarrow> 0 < img_h img \<Longrightarrow> 0 < img_w img \<Longrightarrow>
   fallback_detection cv self img =
     Inr (map (\<lambda>c. detection_of_rect (img_h img) (img_w img) (boundingRect cv c))
            (filter (\<lambda>c. contourArea cv c > 500) (red_contours cv hsv)))"
  by (simp add: fallback_detection_def fallback_loop_append red_contours_def)

lemma rect_in_unit_square:
  "0 < h \<Longrightarrow> 0 < w \<Longrightarrow> rect_in_image h w r \<Longrightarrow> in_unit_square (detection_of_rect h w r)"
  by (auto simp add: rect_in_image_def in_unit_square_def detection_of_rect_def divide_le_eq_1
      split: prod.splits)

text \<open>
  C8. On an image of positive height and width that OpenCV converts, the
  fallback returns exactly one detection for each extracted contour of the red
  mask whose area exceeds 500, in the order of the contours: label
  \<open>red_object\<close>, score 0.8, and the bounding rectangle divided by the image width
  and height. When the rectangles lie in the image, every coordinate is in
  \<open>[0, 1]\<close>. The witness is the scenario of a single red square of 30 by 30
  pixels: exactly one such detection.
\<close>

theorem fallback_one_detection_per_large_contour:
  assumes "cvtColor_RGB2HSV cv img = Inr hsv" and "0 < img_h img" and "0 < img_w img"
  shows "fallback_detection cv self img =
           Inr (map (\<lambda>c. detection_of_rect (img_h img) (img_w img) (boundingRect cv c))
                  (filter (\<lambda>c. contourArea cv c > 500) (red_contours cv hsv)))
         \<and> ((\<forall>c \<in> set (red_contours cv hsv).
                rect_in_image (img_h img) (img_w img) (boundingRect cv c))
              \<longrightarrow> (\<forall>ds. fallback_detection cv self img = Inr ds
                     \<longrightarrow> (\<forall>d \<in> set ds. in_unit_square d)))"
  using assms by (auto simp add: fallback_detection_eq rect_in_unit_square)

theorem fallback_one_detection_per_large_contour_witness:
  "cvtColor_RGB2HSV toy_cv2 (blank_image 480 640) = Inr (blank_image 480 640) \<and>
   0 < img_h (blank_image 480 640) \<and> 0 < img_w (blank_image 480 640) \<and>
   red_contours toy_cv2 (blank_image 480 640) = [[(10, 10), (10, 39), (39, 39), (39, 10)]] \<and>
   rect_in_image 480 640 (boundingRect toy_cv2 [(10, 10), (10, 39), (39, 39), (39, 10)]) \<and>
   fallback_detection toy_cv2 (init_server (1 / 2)) (blank_image 480 640) =
     Inr [\<lparr>label = ''red_object'', score = 8 / 10, xmin = 1 / 64, ymin = 1 / 48,
           xmax = 1 / 16, ymax = 1 / 12\<rparr>] \<and>
   in_unit_square \<lparr>label = ''red_object'', score = 8 / 10, xmin = 1 / 64, ymin = 1 / 48,
                   xmax = 1 / 16, ymax = 1 / 12\<rparr>"
  using fallback_one_detection_per_large_contour
    [of toy_cv2 "blank_image 480 640" "blank_image 480 640" "init_server (1 / 2)"]
  by (simp add: toy_cv2_def blank_image_def red_contours_def detection_of_rect_def
      rect_in_image_def in_unit_square_def)

text \<open>
  C10. The fallback does not read the confidence threshold: two server objects
  that differ in \<open>confidence_threshold\<close> only return the same result on every
  image.
\<close>

theorem fallback_ignores_confidence_threshold:
  "fallback_detection cv (self\<lparr>confidence_threshold := t1\<rparr>) img =
   fallback_detection cv (self\<lparr>confidence_threshold := t2\<rparr>) img"
  by (simp add: fallback_detection_def)

section \<open>The session operation\<close>

text \<open>
  C9. A call of \<open>detect\<close> changes no field of the server object other than
  \<open>inference_count\<close> and \<open>total_inference_time\<close>, with or without a backend and
  whether or not the dispatched path raises.
\<close>

theorem detect_changes_counters_only:
  "confidence_threshold (snd (detect cv self img start_time end_time)) = confidence_threshold self \<and>
   input_shape (snd (detect cv self img start_time end_time)) = input_shape self \<and>
   model_path (snd (detect cv self img start_time end_time)) = model_path self \<and>
   session (snd (detect cv self img start_time end_time)) = session self \<and>
   class_names (snd (detect cv self img start_time end_time)) = class_names self \<and>
   input_name (snd (detect cv self img start_time end_time)) = input_name self"
  by (simp add: detect_def Let_def split: sum.split)

section \<open>Ordered boxes\<close>












section \<open>Rounding to binary64\<close>

lemma binade_ge1:
  assumes "1 \<le> x"
  shows "2 powi (binade x) \<le> x \<and> x < 2 powi (binade x + 1)"
proof -
  let ?n = "\<lfloor>x\<rfloor>"
  have n: "0 < ?n" using assms by simp
  from bitlen_bounds [OF n] have lo: "2 ^ nat (bitlen ?n - 1) \<le> ?n" and hi: "?n < 2 ^ nat (bitlen ?n)"
    by auto
  have b1: "1 \<le> bitlen ?n" using n by (simp add: bitlen_alt_def)
  have bx: "binade x = bitlen ?n - 1" using assms by (simp add: binade_def)
  have "(2::real) powi (bitlen ?n - 1) = 2 ^ nat (bitlen ?n - 1)"
    using b1 by (simp add: power_int_def)
  also have "\<dots> = of_int (2 ^ nat (bitlen ?n - 1))" by simp
  also have "\<dots> \<le> of_int ?n" using lo by (simp only: of_int_le_iff)
  also have "\<dots> \<le> x" by simp
  finally have A: "2 powi (binade x) \<le> x" by (simp add: bx)
  have "?n + 1 \<le> 2 ^ nat (bitlen ?n)" using hi by simp
  then have "real_of_int (?n + 1) \<le> of_int (2 ^ nat (bitlen ?n))" by (simp only: of_int_le_iff)
  then have h1: "real_of_int ?n + 1 \<le> 2 ^ nat (bitlen ?n)" by simp
  have h2: "x < real_of_int ?n + 1" by linarith
  have pw: "(2::real) powi (bitlen ?n) = 2 ^ nat (bitlen ?n)"
    using b1 by (simp add: power_int_def)
  from h1 h2 have "x < 2 ^ nat (bitlen ?n)" by linarith
  then have B: "x < 2 powi (binade x + 1)" by (simp add: bx pw)
  from A B show ?thesis ..
qed

lemma binade_lt1:
  assumes "0 < x" "x < 1"
  shows "2 powi (binade x) \<le> x \<and> x < 2 powi (binade x + 1)"
proof -
  let ?n = "\<lceil>1 / x\<rceil>"
  let ?k = "bitlen (?n - 1)"
  have inv: "1 < 1 / x" using assms by simp
  then have n2: "2 \<le> ?n" by linarith
  then have m: "0 < ?n - 1" by simp
  from bitlen_bounds [OF m] have lo: "2 ^ nat (?k - 1) \<le> ?n - 1" and hi: "?n - 1 < 2 ^ nat ?k"
    by auto
  have k1: "1 \<le> ?k" using m by (simp add: bitlen_alt_def)
  have bx: "binade x = - ?k" using assms by (simp add: binade_def)
  have "?n \<le> 2 ^ nat ?k" using hi by simp
  then have "real_of_int ?n \<le> of_int (2 ^ nat ?k)" by (simp only: of_int_le_iff)
  then have h1: "real_of_int ?n \<le> 2 ^ nat ?k" by simp
  have "1 / x \<le> real_of_int ?n" by (rule le_of_int_ceiling)
  with h1 have "1 / x \<le> 2 ^ nat ?k" by linarith
  then have "1 \<le> 2 ^ nat ?k * x" using assms(1) by (simp add: field_simps)
  then have "1 / 2 ^ nat ?k \<le> x" by (simp add: field_simps)
  moreover have "(2::real) powi (- ?k) = 1 / 2 ^ nat ?k"
    using k1 by (simp add: power_int_def field_simps)
  ultimately have A: "2 powi (binade x) \<le> x" by (simp add: bx)
  have "real_of_int (2 ^ nat (?k - 1)) \<le> of_int (?n - 1)" using lo by (simp only: of_int_le_iff)
  then have h3: "2 ^ nat (?k - 1) \<le> real_of_int ?n - 1" by simp
  have "real_of_int ?n - 1 < 1 / x" by linarith
  with h3 have "2 ^ nat (?k - 1) < 1 / x" by linarith
  then have "2 ^ nat (?k - 1) * x < 1" using assms(1) by (simp add: field_simps)
  then have "x < 1 / 2 ^ nat (?k - 1)" by (simp add: field_simps)
  moreover have "(2::real) powi (- ?k + 1) = 1 / 2 ^ nat (?k - 1)"
  proof (cases "?k = 1")
    case True then show ?thesis by simp
  next
    case False
    with k1 have "- ?k + 1 < 0" by simp
    moreover have "nat (- (- ?k + 1)) = nat (?k - 1)" by simp
    ultimately show ?thesis by (simp add: power_int_def field_simps)
  qed
  ultimately have B: "x < 2 powi (binade x + 1)" by (simp add: bx)
  from A B show ?thesis ..
qed

lemma binade_bounds:
  "0 < x \<Longrightarrow> 2 powi (binade x) \<le> x \<and> x < 2 powi (binade x + 1)"
  using binade_ge1 [of x] binade_lt1 [of x] by (cases "1 \<le> x") auto

lemma binade_eqI:
  assumes "2 powi b \<le> x" "x < 2 powi (b + 1)"
  shows "binade x = b"
proof -
  have x0: "0 < x" using assms(1) by (rule less_le_trans [rotated]) simp
  from binade_bounds [OF x0] have lo: "2 powi (binade x) \<le> x" and hi: "x < 2 powi (binade x + 1)"
    by auto
  have "\<not> b < binade x"
  proof
    assume "b < binade x"
    then have "b + 1 \<le> binade x" by simp
    then have "(2::real) powi (b + 1) \<le> 2 powi (binade x)" by (intro power_int_increasing) simp_all
    with lo assms(2) show False by linarith
  qed
  moreover have "\<not> binade x < b"
  proof
    assume "binade x < b"
    then have "binade x + 1 \<le> b" by simp
    then have "(2::real) powi (binade x + 1) \<le> 2 powi b" by (intro power_int_increasing) simp_all
    with hi assms(1) show False by linarith
  qed
  ultimately show ?thesis by simp
qed

lemma rne_bounds: "\<bar>real_of_int (rne y) - y\<bar> \<le> 1 / 2"
  unfolding rne_def Let_def by (auto; linarith)

lemma rne_eqI:
  assumes "\<bar>y - of_int n\<bar> < 1 / 2"
  shows "rne y = n"
proof -
  have "\<bar>real_of_int (rne y) - y\<bar> \<le> 1 / 2" by (rule rne_bounds)
  with assms have "\<bar>real_of_int (rne y) - real_of_int n\<bar> < 1" by linarith
  then have "\<bar>real_of_int (rne y - n)\<bar> < 1" by simp
  then have "\<bar>rne y - n\<bar> < 1" by linarith
  then show ?thesis by simp
qed

lemma rne_of_int [simp]: "rne (of_int n) = n"
  by (rule rne_eqI) simp

lemma fl64_pos:
  "0 < x \<Longrightarrow> fl64 x = of_int (rne (x / 2 powi (binade x - 52))) * 2 powi (binade x - 52)"
  by (simp add: fl64_def Let_def)

lemma fl64_eqI:
  assumes "2 powi b \<le> x" "x < 2 powi (b + 1)" "\<bar>x / 2 powi (b - 52) - of_int n\<bar> < 1 / 2"
  shows "fl64 x = of_int n * 2 powi (b - 52)"
proof -
  have x0: "0 < x" using assms(1) by (rule less_le_trans [rotated]) simp
  have b: "binade x = b" using assms(1,2) by (rule binade_eqI)
  show ?thesis using rne_eqI [OF assms(3)] by (simp add: fl64_pos [OF x0] b)
qed

lemma fl64_0 [simp]: "fl64 0 = 0"
  by (simp add: fl64_def)

lemma fl64_error:
  assumes "0 \<le> x"
  shows "\<bar>fl64 x - x\<bar> \<le> x / 2 ^ 53"
proof (cases "x = 0")
  case True then show ?thesis by simp
next
  case False
  with assms have x0: "0 < x" by simp
  define e where "e = binade x - 52"
  define m where "m = x / 2 powi e"
  have pe: "0 < (2::real) powi e" by simp
  have x_eq: "x = m * 2 powi e" by (simp add: m_def)
  have fl: "fl64 x = of_int (rne m) * 2 powi e"
    by (simp add: fl64_pos [OF x0] e_def m_def)
  have "(2::real) powi (binade x) = 2 powi (e + 52)" by (simp add: e_def)
  also have "\<dots> = 2 powi e * 2 ^ 52" by (simp add: power_int_add)
  finally have "2 powi e * 2 ^ 52 \<le> x" using binade_bounds [OF x0] by simp
  then have pe_le: "2 powi e \<le> x / 2 ^ 52" by (simp add: field_simps)
  have "fl64 x - x = (of_int (rne m) - m) * 2 powi e"
    by (simp add: fl x_eq [symmetric] algebra_simps)
  then have "\<bar>fl64 x - x\<bar> = \<bar>of_int (rne m) - m\<bar> * 2 powi e"
    by (simp add: abs_mult)
  also have "\<dots> \<le> 1 / 2 * 2 powi e"
    using rne_bounds [of m] by (intro mult_right_mono) simp_all
  also have "\<dots> \<le> 1 / 2 * (x / 2 ^ 52)"
    using pe_le by simp
  also have "\<dots> = x / 2 ^ 53" by simp
  finally show ?thesis .
qed

lemma fl64_upper: "0 \<le> x \<Longrightarrow> fl64 x \<le> x * (1 + 1 / 2 ^ 53)"
  using fl64_error [of x] unfolding abs_le_iff by (simp add: algebra_simps)

lemma fl64_lower: "0 \<le> x \<Longrightarrow> x * (1 - 1 / 2 ^ 53) \<le> fl64 x"
  using fl64_error [of x] unfolding abs_le_iff by (simp add: algebra_simps)

lemma fl64_nonneg: "0 \<le> x \<Longrightarrow> 0 \<le> fl64 x"
proof -
  assume x: "0 \<le> x"
  then have "0 \<le> x * (1 - 1 / 2 ^ 53)" by (intro mult_nonneg_nonneg) simp_all
  with fl64_lower [OF x] show ?thesis by linarith
qed

lemma fl64_of_nat:
  assumes "n < 2 ^ 53"
  shows "fl64 (real n) = real n"
proof (cases "n = 0")
  case True then show ?thesis by simp
next
  case False
  then have x0: "0 < real n" by simp
  define b where "b = binade (real n)"
  from binade_bounds [OF x0] have lo: "2 powi b \<le> real n" by (simp add: b_def)
  have "real n < 2 ^ 53" using assms by (metis of_nat_less_iff of_nat_numeral of_nat_power)
  then have "real n < 2 powi 53" by simp
  with lo have "(2::real) powi b < 2 powi 53" by linarith
  have "b < 53"
  proof (rule ccontr)
    assume "\<not> b < 53"
    then have "53 \<le> b" by simp
    then have "(2::real) powi 53 \<le> 2 powi b" by (intro power_int_increasing) simp_all
    with \<open>(2::real) powi b < 2 powi 53\<close> show False by linarith
  qed
  then have k: "0 \<le> 52 - b" by simp
  have "1 / (2::real) powi (b - 52) = 2 powi (52 - b)"
    by (simp add: power_int_diff)
  also have "\<dots> = 2 ^ nat (52 - b)" using k by (simp add: power_int_def)
  finally have inv: "1 / (2::real) powi (b - 52) = 2 ^ nat (52 - b)" .
  have "real n / 2 powi (b - 52) = real n * (1 / 2 powi (b - 52))" by simp
  also have "\<dots> = real n * 2 ^ nat (52 - b)" by (simp only: inv)
  also have "\<dots> = of_int (int n * 2 ^ nat (52 - b))" by simp
  finally have m: "real n / 2 powi (b - 52) = of_int (int n * 2 ^ nat (52 - b))" .
  have "fl64 (real n) = of_int (int n * 2 ^ nat (52 - b)) * 2 powi (b - 52)"
    by (simp only: fl64_pos [OF x0] b_def [symmetric] m rne_of_int)
  also have "\<dots> = real n * (2 ^ nat (52 - b) * 2 powi (b - 52))" by simp
  also have "2 ^ nat (52 - b) * (2::real) powi (b - 52) = 1"
    using inv by (simp add: field_simps)
  finally show ?thesis by simp
qed

subsection \<open>The rounded values of the concrete inputs\<close>

lemma fl64_numeral: "numeral k < (2::nat) ^ 53 \<Longrightarrow> fl64 (numeral k) = numeral k"
  using fl64_of_nat [of "numeral k"] by simp

lemma fl64_1 [simp]: "fl64 1 = 1"
  using fl64_of_nat [of 1] by simp





lemma fl64_b_th_h: "fl64 (640 / 3) = 7505999378950827 / 35184372088832"
  using fl64_eqI [of 7 "640 / 3" 7505999378950827] by simp

lemma fl64_b_w_s: "fl64 (7505999378950827 / 17592186044416) = 7505999378950827 / 17592186044416"
  using fl64_eqI [of 8 "7505999378950827 / 17592186044416" 7505999378950827] by simp

lemma fl64_b_h_s: "fl64 (22517998136852481 / 35184372088832) = 640"
  using fl64_eqI [of 9 "22517998136852481 / 35184372088832" 5629499534213120] by simp

lemma fl64_c_th_h: "fl64 (4 / 3) = 6004799503160661 / 4503599627370496"
  using fl64_eqI [of 0 "4 / 3" 6004799503160661] by simp



lemma letterbox_2_3:
  "letterbox_dims 3 2 640 640 = Inr (7505999378950827 / 35184372088832, 426, 640)"
  by (simp add: letterbox_dims_def Let_def fl64_numeral fl64_b_th_h fl64_b_w_s fl64_b_h_s py_int_def)

lemma letterbox_640_480:
  "letterbox_dims 480 640 640 640 = Inr (1, 640, 480)"
  by (simp add: letterbox_dims_def Let_def fl64_numeral fl64_c_th_h py_int_def)


section \<open>The preprocessor\<close>

lemma scaled_dim_bound:
  assumes d: "0 < d" and t: "t < 2 ^ 50" and s0: "0 \<le> s" and s: "s \<le> fl64 (real t / real d)"
  shows "0 \<le> py_int (fl64 (fl64 (real d) * s)) \<and> py_int (fl64 (fl64 (real d) * s)) \<le> int t"
proof -
  define u :: real where "u = 1 + 1 / 2 ^ 53"
  have u1: "0 \<le> u" by (simp add: u_def)
  have tr: "real t < 2 ^ 50" using t by (metis of_nat_less_iff of_nat_numeral of_nat_power)
  have q0: "0 \<le> real t / real d" by simp
  have a: "fl64 (real t / real d) \<le> real t / real d * u"
    unfolding u_def by (rule fl64_upper [OF q0])
  have fd: "fl64 (real d) \<le> real d * u" unfolding u_def by (rule fl64_upper) simp
  have fd0: "0 \<le> fl64 (real d)" by (rule fl64_nonneg) simp
  have s_le: "s \<le> real t / real d * u" using s a by linarith
  have prod0: "0 \<le> fl64 (real d) * s" using fd0 s0 by (rule mult_nonneg_nonneg)
  have "fl64 (real d) * s \<le> (real d * u) * (real t / real d * u)"
    using fd s_le fd0 s0 by (intro mult_mono) (simp_all add: u1)
  also have "\<dots> = real t * (u * u)" using d by simp
  finally have prod: "fl64 (real d) * s \<le> real t * (u * u)" .
  have p0: "0 \<le> fl64 (fl64 (real d) * s)" using prod0 by (rule fl64_nonneg)
  have "fl64 (fl64 (real d) * s) \<le> fl64 (real d) * s * u"
    unfolding u_def by (rule fl64_upper [OF prod0])
  also have "\<dots> \<le> real t * (u * u) * u" using prod u1 by (rule mult_right_mono)
  finally have p: "fl64 (fl64 (real d) * s) \<le> real t * (u * u * u)" by (simp add: mult.assoc)
  have "u * u * u \<le> 1 + 4 / 2 ^ 53" by (simp add: u_def)
  then have "real t * (u * u * u) \<le> real t * (1 + 4 / 2 ^ 53)"
    by (intro mult_left_mono) simp_all
  also have "\<dots> = real t + real t * (4 / 2 ^ 53)" by (simp add: algebra_simps)
  also have "\<dots> < real t + 1" using tr by simp
  finally have "fl64 (fl64 (real d) * s) < real t + 1" using p by linarith
  then have "fl64 (fl64 (real d) * s) < of_int (int t + 1)" by simp
  then have "\<lfloor>fl64 (fl64 (real d) * s)\<rfloor> < int t + 1" by (simp only: floor_less_iff)
  moreover have "0 \<le> \<lfloor>fl64 (fl64 (real d) * s)\<rfloor>" using p0 by simp
  ultimately show ?thesis using p0 by (simp add: py_int_def)
qed


lemma letterbox_dims_bounds:
  assumes "0 < h" "0 < w" "th < 2 ^ 50" "tw < 2 ^ 50"
  shows "letterbox_dims h w th tw =
           Inr (min (fl64 (real tw / real w)) (fl64 (real th / real h)),
                py_int (fl64 (fl64 (real w) * min (fl64 (real tw / real w)) (fl64 (real th / real h)))),
                py_int (fl64 (fl64 (real h) * min (fl64 (real tw / real w)) (fl64 (real th / real h)))))"
    and "0 \<le> py_int (fl64 (fl64 (real w) * min (fl64 (real tw / real w)) (fl64 (real th / real h))))"
    and "py_int (fl64 (fl64 (real w) * min (fl64 (real tw / real w)) (fl64 (real th / real h)))) \<le> int tw"
    and "0 \<le> py_int (fl64 (fl64 (real h) * min (fl64 (real tw / real w)) (fl64 (real th / real h))))"
    and "py_int (fl64 (fl64 (real h) * min (fl64 (real tw / real w)) (fl64 (real th / real h)))) \<le> int th"
proof -
  let ?s = "min (fl64 (real tw / real w)) (fl64 (real th / real h))"
  have s0: "0 \<le> ?s" by (simp add: fl64_nonneg)
  show "letterbox_dims h w th tw = Inr (?s, py_int (fl64 (fl64 (real w) * ?s)), py_int (fl64 (fl64 (real h) * ?s)))"
    using assms(1,2) by (simp add: letterbox_dims_def Let_def)
  from scaled_dim_bound [OF assms(2) assms(4) s0, of ] show
    "0 \<le> py_int (fl64 (fl64 (real w) * ?s))" "py_int (fl64 (fl64 (real w) * ?s)) \<le> int tw"
    by simp_all
  from scaled_dim_bound [OF assms(1) assms(3) s0] show
    "0 \<le> py_int (fl64 (fl64 (real h) * ?s))" "py_int (fl64 (fl64 (real h) * ?s)) \<le> int th"
    by simp_all
qed

lemma slice_bounds_inside:
  "0 \<le> a \<Longrightarrow> a \<le> b \<Longrightarrow> b \<le> int n \<Longrightarrow> slice_bounds a b n = (nat a, nat b)"
  by (simp add: slice_bounds_def Let_def)

lemma preprocess_image_result:
  assumes h: "0 < img_h img" and w: "0 < img_w img"
    and shape: "input_shape self = (target_h, target_w)"
    and th: "target_h < 2 ^ 50" and tw: "target_w < 2 ^ 50"
    and scale: "scale = min (fl64 (real target_w / real (img_w img)))
                            (fl64 (real target_h / real (img_h img)))"
    and new_w: "new_w = py_int (fl64 (fl64 (real (img_w img)) * scale))"
    and new_h: "new_h = py_int (fl64 (fl64 (real (img_h img)) * scale))"
    and rs: "resize cv img (new_w, new_h) = Inr resized"
    and rh: "int (img_h resized) = new_h" and rw: "int (img_w resized) = new_w"
    and pad_x: "pad_x = (int target_w - new_w) div 2"
    and pad_y: "pad_y = (int target_h - new_h) div 2"
  shows "\<exists>input_tensor.
           preprocess_image cv self img = Inr (input_tensor, scale, (pad_x, pad_y)) \<and>
           t_shape input_tensor = (1, 3, target_h, target_w) \<and>
           (\<forall>c y x. t_at input_tensor 0 c y x =
              (if pad_y \<le> int y \<and> int y < pad_y + new_h \<and> pad_x \<le> int x \<and> int x < pad_x + new_w
               then real (unat (img_px resized (nat (int y - pad_y)) (nat (int x - pad_x)) c)) / 255
               else 114 / 255))"
proof -
  note lb = letterbox_dims_bounds [OF h w th tw]
  from lb(1) have dims: "letterbox_dims (img_h img) (img_w img) target_h target_w = Inr (scale, new_w, new_h)"
    by (simp add: scale new_w new_h)
  from lb(2,3) have nw: "0 \<le> new_w" "new_w \<le> int target_w" by (simp_all add: scale new_w)
  from lb(4,5) have nh: "0 \<le> new_h" "new_h \<le> int target_h" by (simp_all add: scale new_h)
  have px: "0 \<le> pad_x" "pad_x + new_w \<le> int target_w" using nw unfolding pad_x by linarith+
  have py: "0 \<le> pad_y" "pad_y + new_h \<le> int target_h" using nh unfolding pad_y by linarith+
  have xs: "slice_bounds pad_x (pad_x + new_w) target_w = (nat pad_x, nat (pad_x + new_w))"
    using px nw by (intro slice_bounds_inside) simp_all
  have ys: "slice_bounds pad_y (pad_y + new_h) target_h = (nat pad_y, nat (pad_y + new_h))"
    using py nh by (intro slice_bounds_inside) simp_all
  have bw: "nat (pad_x + new_w) - nat pad_x = img_w resized" using px nw rw by linarith
  have bh: "nat (pad_y + new_h) - nat pad_y = img_h resized" using py nh rh by linarith
  let ?T = "\<lparr>t_shape = (1, 3, target_h, target_w),
             t_at = (\<lambda>b c y x. real (unat (place_on_canvas resized (nat pad_y, nat (pad_y + new_h))
                        (nat pad_x, nat (pad_x + new_w)) y x c)) / 255)\<rparr>"
  have res: "preprocess_image cv self img = Inr (?T, scale, (pad_x, pad_y))"
    by (simp add: preprocess_image_def shape dims rs Let_def pad_x [symmetric] pad_y [symmetric]
        xs ys bw bh broadcastable_def)
  have px_at: "t_at ?T 0 c y x =
      (if pad_y \<le> int y \<and> int y < pad_y + new_h \<and> pad_x \<le> int x \<and> int x < pad_x + new_w
       then real (unat (img_px resized (nat (int y - pad_y)) (nat (int x - pad_x)) c)) / 255
       else 114 / 255)" for c y x
  proof (cases "pad_y \<le> int y \<and> int y < pad_y + new_h \<and> pad_x \<le> int x \<and> int x < pad_x + new_w")
    case True
    then have inside: "nat pad_y \<le> y" "y < nat (pad_y + new_h)" "nat pad_x \<le> x" "x < nat (pad_x + new_w)"
      by linarith+
    have iy: "(if img_h resized = 1 then 0 else y - nat pad_y) = nat (int y - pad_y)"
      using True py rh by (auto simp add: nat_diff_distrib')
    have ix: "(if img_w resized = 1 then 0 else x - nat pad_x) = nat (int x - pad_x)"
      using True px rw by (auto simp add: nat_diff_distrib')
    have "place_on_canvas resized (nat pad_y, nat (pad_y + new_h)) (nat pad_x, nat (pad_x + new_w)) y x c =
          img_px resized (if img_h resized = 1 then 0 else y - nat pad_y)
            (if img_w resized = 1 then 0 else x - nat pad_x) c"
      using inside by (simp add: place_on_canvas_def)
    also have "\<dots> = img_px resized (nat (int y - pad_y)) (nat (int x - pad_x)) c"
      by (simp only: iy ix)
    finally show ?thesis using True by simp
  next
    case False
    then have "\<not> (nat pad_y \<le> y \<and> y < nat (pad_y + new_h) \<and> nat pad_x \<le> x \<and> x < nat (pad_x + new_w))"
      using px py by linarith
    then show ?thesis using False by (auto simp add: place_on_canvas_def)
  qed
  show ?thesis
    by (rule exI [of _ ?T]) (simp only: res px_at, simp)
qed

lemma fl64_d_tw_w: "fl64 (8 / 25) = 5764607523034235 / 18014398509481984"
  using fl64_eqI [of "- 2" "8 / 25" 5764607523034235] by simp

lemma fl64_d_w_s: "fl64 (720575940379279375 / 1125899906842624) = 640"
  using fl64_eqI [of 9 "720575940379279375 / 1125899906842624" 5629499534213120] by simp

lemma fl64_d_h_s: "fl64 (5764607523034235 / 18014398509481984) = 5764607523034235 / 18014398509481984"
  using fl64_eqI [of "- 2" "5764607523034235 / 18014398509481984" 5764607523034235] by simp

lemma letterbox_2000_1:
  "letterbox_dims 1 2000 640 640 = Inr (5764607523034235 / 18014398509481984, 640, 0)"
  by (simp add: letterbox_dims_def Let_def fl64_numeral fl64_d_tw_w fl64_d_w_s fl64_d_h_s py_int_def)





text \<open>
  C5. The claim has the image resized to the rounded products. The code
  truncates: \<open>int(w * scale)\<close>. With truncation in place of rounding the claim
  holds: for an image of positive height and width and a target below \<open>2^50\<close> in
  both dimensions, when OpenCV returns a resized image of the requested size,
  \<open>preprocess_image\<close> returns the tensor, the scale \<open>min(target_w / w, target_h / h)\<close>
  and the padding offsets \<open>(target_w - new_w) // 2\<close> and \<open>(target_h - new_h) // 2\<close>;
  the tensor has shape \<open>(1, 3, target_h, target_w)\<close>, holds the resized image
  divided by 255 in the centred window and \<open>114 / 255\<close> around it.
\<close>

theorem preprocess_image_letterbox:
  assumes "0 < img_h img" and "0 < img_w img"
    and "input_shape self = (target_h, target_w)"
    and "target_h < 2 ^ 50" and "target_w < 2 ^ 50"
    and "scale = min (fl64 (real target_w / real (img_w img)))
                     (fl64 (real target_h / real (img_h img)))"
    and "new_w = py_int (fl64 (fl64 (real (img_w img)) * scale))"
    and "new_h = py_int (fl64 (fl64 (real (img_h img)) * scale))"
    and "resize cv img (new_w, new_h) = Inr resized"
    and "int (img_h resized) = new_h" and "int (img_w resized) = new_w"
    and "pad_x = (int target_w - new_w) div 2"
    and "pad_y = (int target_h - new_h) div 2"
  shows "\<exists>input_tensor.
           preprocess_image cv self img = Inr (input_tensor, scale, (pad_x, pad_y)) \<and>
           t_shape input_tensor = (1, 3, target_h, target_w) \<and>
           (\<forall>c y x. t_at input_tensor 0 c y x =
              (if pad_y \<le> int y \<and> int y < pad_y + new_h \<and> pad_x \<le> int x \<and> int x < pad_x + new_w
               then real (unat (img_px resized (nat (int y - pad_y)) (nat (int x - pad_x)) c)) / 255
               else 114 / 255))"
  using assms by (rule preprocess_image_result)

theorem preprocess_image_letterbox_witness:
  "0 < img_h (blank_image 480 640) \<and> 0 < img_w (blank_image 480 640) \<and>
   input_shape (init_server (1 / 2)) = (640, 640) \<and> (640::nat) < 2 ^ 50 \<and>
   (1::real) = min (fl64 (real 640 / real (img_w (blank_image 480 640))))
                   (fl64 (real 640 / real (img_h (blank_image 480 640)))) \<and>
   (640::int) = py_int (fl64 (fl64 (real (img_w (blank_image 480 640))) * 1)) \<and>
   (480::int) = py_int (fl64 (fl64 (real (img_h (blank_image 480 640))) * 1)) \<and>
   resize toy_cv2 (blank_image 480 640) (640, 480) = Inr (blank_image 480 640) \<and>
   (0::int) = (int 640 - 640) div 2 \<and> (80::int) = (int 640 - 480) div 2 \<and>
   map_sum id snd (preprocess_image toy_cv2 (init_server (1 / 2)) (blank_image 480 640)) =
     Inr (1, (0, 80)) \<and>
   t_shape (fst (projr (preprocess_image toy_cv2 (init_server (1 / 2)) (blank_image 480 640)))) =
     (1, 3, 640, 640) \<and>
   t_at (fst (projr (preprocess_image toy_cv2 (init_server (1 / 2)) (blank_image 480 640)))) 0 0 79 0 =
     114 / 255 \<and>
   t_at (fst (projr (preprocess_image toy_cv2 (init_server (1 / 2)) (blank_image 480 640)))) 0 0 80 0 =
     0"
proof -
  have h1: "0 < img_h (blank_image 480 640)" "0 < img_w (blank_image 480 640)"
    by (simp_all add: blank_image_def)
  have h2: "input_shape (init_server (1 / 2)) = (640, 640)" by (simp add: init_server_def)
  have h3: "(640::nat) < 2 ^ 50" by simp
  have h4: "(1::real) = min (fl64 (real 640 / real (img_w (blank_image 480 640))))
                   (fl64 (real 640 / real (img_h (blank_image 480 640))))"
    by (simp add: blank_image_def fl64_c_th_h)
  have h5: "(640::int) = py_int (fl64 (fl64 (real (img_w (blank_image 480 640))) * 1))"
    "(480::int) = py_int (fl64 (fl64 (real (img_h (blank_image 480 640))) * 1))"
    by (simp_all add: blank_image_def fl64_numeral py_int_def)
  have h6: "resize toy_cv2 (blank_image 480 640) (640, 480) = Inr (blank_image 480 640)"
    by (simp add: toy_cv2_def blank_image_def)
  have h7: "int (img_h (blank_image 480 640)) = 480" "int (img_w (blank_image 480 640)) = 640"
    by (simp_all add: blank_image_def)
  have h8: "(0::int) = (int 640 - 640) div 2" "(80::int) = (int 640 - 480) div 2" by simp_all
  from preprocess_image_letterbox [OF h1 h2 h3 h3 h4 h5 h6 h7 h8]
  obtain T where T: "preprocess_image toy_cv2 (init_server (1 / 2)) (blank_image 480 640) =
        Inr (T, 1, (0, 80))" "t_shape T = (1, 3, 640, 640)"
      "\<And>c y x. t_at T 0 c y x =
         (if 80 \<le> int y \<and> int y < 80 + 480 \<and> 0 \<le> int x \<and> int x < 0 + 640
          then real (unat (img_px (blank_image 480 640) (nat (int y - 80)) (nat (int x - 0)) c)) / 255
          else 114 / 255)"
    by blast
  have p1: "t_at T 0 0 79 0 = 114 / 255" by (simp add: T(3))
  have p2: "t_at T 0 0 80 0 = 0" by (simp add: T(3) blank_image_def)
  from h1 h2 h3 h4 h5 h6 h8 T(1,2) p1 p2 show ?thesis by simp
qed

lemma preprocess_toy:
  assumes lb: "letterbox_dims h w 640 640 = Inr (s, nw, nh)"
    and h: "0 < h" and w: "0 < w" and nw: "0 < nw" and nh: "0 < nh"
    and shape: "input_shape self = (640, 640)"
  shows "\<exists>T. preprocess_image toy_cv2 self (blank_image h w) =
               Inr (T, s, ((640 - nw) div 2, (640 - nh) div 2))"
proof -
  have h': "0 < img_h (blank_image h w)" and w': "0 < img_w (blank_image h w)"
    using h w by (simp_all add: blank_image_def)
  have t: "(640::nat) < 2 ^ 50" by simp
  from letterbox_dims_bounds(1) [OF h w t t] lb have
    s: "s = min (fl64 (real 640 / real (img_w (blank_image h w))))
                (fl64 (real 640 / real (img_h (blank_image h w))))"
    and nw_eq: "nw = py_int (fl64 (fl64 (real (img_w (blank_image h w))) * s))"
    and nh_eq: "nh = py_int (fl64 (fl64 (real (img_h (blank_image h w))) * s))"
    by (simp_all add: blank_image_def)
  have rs: "resize toy_cv2 (blank_image h w) (nw, nh) = Inr (blank_image (nat nh) (nat nw))"
    using nw nh by (simp add: toy_cv2_def blank_image_def)
  have rh: "int (img_h (blank_image (nat nh) (nat nw))) = nh"
    and rw: "int (img_w (blank_image (nat nh) (nat nw))) = nw"
    using nw nh by (simp_all add: blank_image_def)
  have px: "(640 - nw) div 2 = (int 640 - nw) div 2" and py: "(640 - nh) div 2 = (int 640 - nh) div 2"
    by simp_all
  from preprocess_image_result [OF h' w' shape t t s nw_eq nh_eq rs rh rw px py]
  show ?thesis by blast
qed

theorem preprocess_truncates_not_rounds:
  "letterbox_dims 3 2 640 640 = Inr (7505999378950827 / 35184372088832, 426, 640) \<and>
   round (real 2 * (7505999378950827 / 35184372088832)) = (427 :: int) \<and>
   map_sum id snd (preprocess_image toy_cv2 (init_server (1 / 2)) (blank_image 3 2)) =
     Inr (7505999378950827 / 35184372088832, (107, 0))"
proof -
  have shape: "input_shape (init_server (1 / 2)) = (640, 640)" by (simp add: init_server_def)
  from preprocess_toy [OF letterbox_2_3 _ _ _ _ shape]
  obtain T where "preprocess_image toy_cv2 (init_server (1 / 2)) (blank_image 3 2) =
      Inr (T, 7505999378950827 / 35184372088832, (107, 0))"
    by auto
  then show ?thesis by (simp add: letterbox_2_3 round_def)
qed


section \<open>Counting inferences\<close>

text \<open>
  The counters are updated inside the \<^verbatim>\<open>try\<close> block of \<^verbatim>\<open>detect\<close>, after the
  dispatched path has returned; the handler returns the empty list and touches nothing.
\<close>

lemma detect_of_dispatch:
  "detect cv self img start_time end_time =
    (case detect_dispatch cv self img of
       Inr ds \<Rightarrow> (ds, self\<lparr>inference_count := inference_count self + 1,
                      total_inference_time := total_inference_time self + (end_time - start_time)\<rparr>)
     | Inl e \<Rightarrow> ([], self))"
  by (simp add: detect_def Let_def split: sum.splits)

lemma detect_fallback_returns:
  "session self = None \<Longrightarrow> fallback_detection cv self img = Inr ds \<Longrightarrow>
   detect cv self img start_time end_time =
     (ds, self\<lparr>inference_count := inference_count self + 1,
               total_inference_time := total_inference_time self + (end_time - start_time)\<rparr>)"
  by (simp add: detect_of_dispatch detect_dispatch_def)

lemma detect_fallback_raises:
  "session self = None \<Longrightarrow> fallback_detection cv self img = Inl e \<Longrightarrow>
   detect cv self img start_time end_time = ([], self)"
  by (simp add: detect_of_dispatch detect_dispatch_def)

lemma detect_backend_returns:
  "session self = Some run \<Longrightarrow>
   preprocess_image cv self img = Inr (input_tensor, scale, padding) \<Longrightarrow>
   run (input_name self) input_tensor = Inr outputs \<Longrightarrow>
   detect cv self img start_time end_time =
     (postprocess_detections self outputs (img_h img, img_w img) scale padding,
      self\<lparr>inference_count := inference_count self + 1,
           total_inference_time := total_inference_time self + (end_time - start_time)\<rparr>)"
  by (simp add: detect_of_dispatch detect_dispatch_def)

lemma detect_backend_raises:
  "session self = Some run \<Longrightarrow>
   preprocess_image cv self img = Inr (input_tensor, scale, padding) \<Longrightarrow>
   run (input_name self) input_tensor = Inl e \<Longrightarrow>
   detect cv self img start_time end_time = ([], self)"
  by (simp add: detect_of_dispatch detect_dispatch_def)

lemma detect_preprocess_raises:
  "session self = Some run \<Longrightarrow> preprocess_image cv self img = Inl e \<Longrightarrow>
   detect cv self img start_time end_time = ([], self)"
  by (simp add: detect_of_dispatch detect_dispatch_def)

text \<open>
  C4. \<^verbatim>\<open>detect\<close> never raises. When the dispatched path returns (the fallback heuristic
  when no session is loaded; preprocessing, the backend run and the decoder otherwise),
  \<^verbatim>\<open>inference_count\<close> grows by exactly one and the elapsed time is added to
  \<^verbatim>\<open>total_inference_time\<close>. When the fallback, the preprocessing or the backend run
  raises, the result is the empty list and both counters are left as they were.
\<close>

theorem detect_counters:
  "(session self = None \<and> fallback_detection cv self img = Inr ds \<longrightarrow>
      detect cv self img start_time end_time =
        (ds, self\<lparr>inference_count := inference_count self + 1,
                  total_inference_time := total_inference_time self + (end_time - start_time)\<rparr>)) \<and>
   (session self = None \<and> fallback_detection cv self img = Inl e \<longrightarrow>
      detect cv self img start_time end_time = ([], self)) \<and>
   (session self = Some run \<and>
    preprocess_image cv self img = Inr (input_tensor, scale, padding) \<and>
    run (input_name self) input_tensor = Inr outputs \<longrightarrow>
      detect cv self img start_time end_time =
        (postprocess_detections self outputs (img_h img, img_w img) scale padding,
         self\<lparr>inference_count := inference_count self + 1,
              total_inference_time := total_inference_time self + (end_time - start_time)\<rparr>)) \<and>
   (session self = Some run \<and>
    preprocess_image cv self img = Inr (input_tensor, scale, padding) \<and>
    run (input_name self) input_tensor = Inl e \<longrightarrow>
      detect cv self img start_time end_time = ([], self)) \<and>
   (session self = Some run \<and> preprocess_image cv self img = Inl e \<longrightarrow>
      detect cv self img start_time end_time = ([], self))"
proof (intro conjI impI)
  assume "session self = None \<and> fallback_detection cv self img = Inr ds"
  then show "detect cv self img start_time end_time =
        (ds, self\<lparr>inference_count := inference_count self + 1,
                  total_inference_time := total_inference_time self + (end_time - start_time)\<rparr>)"
    by (simp add: detect_fallback_returns)
next
  assume "session self = None \<and> fallback_detection cv self img = Inl e"
  then show "detect cv self img start_time end_time = ([], self)"
    by (simp add: detect_fallback_raises)
next
  assume "session self = Some run \<and>
    preprocess_image cv self img = Inr (input_tensor, scale, padding) \<and>
    run (input_name self) input_tensor = Inr outputs"
  then show "detect cv self img start_time end_time =
        (postprocess_detections self outputs (img_h img, img_w img) scale padding,
         self\<lparr>inference_count := inference_count self + 1,
              total_inference_time := total_inference_time self + (end_time - start_time)\<rparr>)"
    by (simp add: detect_backend_returns)
next
  assume "session self = Some run \<and>
    preprocess_image cv self img = Inr (input_tensor, scale, padding) \<and>
    run (input_name self) input_tensor = Inl e"
  then show "detect cv self img start_time end_time = ([], self)"
    by (simp add: detect_backend_raises [where e = e])
next
  assume "session self = Some run \<and> preprocess_image cv self img = Inl e"
  then show "detect cv self img start_time end_time = ([], self)"
    by (simp add: detect_preprocess_raises)
qed

lemma preprocess_toy_640_480:
  assumes "input_shape self = (640, 640)"
  shows "preprocess_image toy_cv2 self (blank_image 480 640) =
           Inr (fst (projr (preprocess_image toy_cv2 self (blank_image 480 640))), 1, (0, 80))"
proof -
  from preprocess_toy [OF letterbox_640_480 _ _ _ _ assms]
  obtain T where "preprocess_image toy_cv2 self (blank_image 480 640) = Inr (T, 1, (0, 80))"
    by auto
  then show ?thesis by simp
qed

lemma preprocess_toy_2000_1:
  assumes "input_shape self = (640, 640)"
  shows "preprocess_image toy_cv2 self (blank_image 1 2000) = Inl CvError"
  by (simp add: preprocess_image_def assms letterbox_2000_1 [unfolded One_nat_def]
      toy_cv2_def blank_image_def)

lemma fallback_toy:
  "fallback_detection toy_cv2 self (blank_image 480 640) =
     Inr [\<lparr>label = ''red_object'', score = 8 / 10, xmin = 1 / 64, ymin = 1 / 48,
           xmax = 1 / 16, ymax = 1 / 12\<rparr>]"
  by (simp add: fallback_detection_def toy_cv2_def blank_image_def)

lemma fallback_toy_empty:
  "fallback_detection toy_cv2 self (blank_image 0 0) = Inl CvError"
  by (simp add: fallback_detection_def toy_cv2_def blank_image_def)

theorem detect_counters_witness:
  "session (init_server (1 / 2)) = None \<and>
   fallback_detection toy_cv2 (init_server (1 / 2)) (blank_image 480 640) =
     Inr [\<lparr>label = ''red_object'', score = 8 / 10, xmin = 1 / 64, ymin = 1 / 48,
           xmax = 1 / 16, ymax = 1 / 12\<rparr>] \<and>
   detect toy_cv2 (init_server (1 / 2)) (blank_image 480 640) 10 12 =
     ([\<lparr>label = ''red_object'', score = 8 / 10, xmin = 1 / 64, ymin = 1 / 48,
        xmax = 1 / 16, ymax = 1 / 12\<rparr>],
      (init_server (1 / 2))\<lparr>inference_count := 1, total_inference_time := 2\<rparr>) \<and>
   fallback_detection toy_cv2 (init_server (1 / 2)) (blank_image 0 0) = Inl CvError \<and>
   detect toy_cv2 (init_server (1 / 2)) (blank_image 0 0) 10 12 = ([], init_server (1 / 2)) \<and>
   session stub_backend_server = Some (\<lambda>name t. Inr two_row_outputs) \<and>
   map_sum id snd (preprocess_image toy_cv2 stub_backend_server (blank_image 480 640)) =
     Inr (1, (0, 80)) \<and>
   detect toy_cv2 stub_backend_server (blank_image 480 640) 10 12 =
     (postprocess_detections stub_backend_server two_row_outputs (480, 640) 1 (0, 80),
      stub_backend_server\<lparr>inference_count := 1, total_inference_time := 2\<rparr>) \<and>
   length (postprocess_detections stub_backend_server two_row_outputs (480, 640) 1 (0, 80)) = 2 \<and>
   session failing_backend_server = Some (\<lambda>name t. Inl BackendError) \<and>
   map_sum id snd (preprocess_image toy_cv2 failing_backend_server (blank_image 480 640)) =
     Inr (1, (0, 80)) \<and>
   detect toy_cv2 failing_backend_server (blank_image 480 640) 10 12 =
     ([], failing_backend_server) \<and>
   preprocess_image toy_cv2 stub_backend_server (blank_image 1 2000) = Inl CvError \<and>
   detect toy_cv2 stub_backend_server (blank_image 1 2000) 10 12 = ([], stub_backend_server)"
proof -
  let ?d = "\<lparr>label = ''red_object'', score = 8 / 10, xmin = 1 / 64, ymin = 1 / 48,
           xmax = 1 / 16, ymax = 1 / 12\<rparr>"
  let ?s0 = "init_server (1 / 2)"
  have s0: "session ?s0 = None" "inference_count ?s0 = 0" "total_inference_time ?s0 = 0"
    by (simp_all add: init_server_def)
  have sb: "session stub_backend_server = Some (\<lambda>name t. Inr two_row_outputs)"
    "inference_count stub_backend_server = 0" "total_inference_time stub_backend_server = 0"
    "input_shape stub_backend_server = (640, 640)"
    by (simp_all add: stub_backend_server_def init_server_def)
  have sf: "session failing_backend_server = Some (\<lambda>name t. Inl BackendError)"
    "input_shape failing_backend_server = (640, 640)"
    by (simp_all add: failing_backend_server_def init_server_def)
  note ppb = preprocess_toy_640_480 [OF sb(4)]
  note ppf = preprocess_toy_640_480 [OF sf(2)]
  note ppr = preprocess_toy_2000_1 [OF sb(4)]
  have c1: "detect toy_cv2 ?s0 (blank_image 480 640) 10 12 =
      ([?d], ?s0\<lparr>inference_count := 1, total_inference_time := 2\<rparr>)"
    using detect_counters [of ?s0 toy_cv2 "blank_image 480 640" "[?d]" 10 12] s0 fallback_toy [of ?s0]
    by simp
  have c2: "detect toy_cv2 ?s0 (blank_image 0 0) 10 12 = ([], ?s0)"
    using detect_counters [of ?s0 toy_cv2 "blank_image 0 0" _ 10 12 CvError] s0
      fallback_toy_empty [of ?s0]
    by simp
  have c3: "detect toy_cv2 stub_backend_server (blank_image 480 640) 10 12 =
     (postprocess_detections stub_backend_server two_row_outputs (480, 640) 1 (0, 80),
      stub_backend_server\<lparr>inference_count := 1, total_inference_time := 2\<rparr>)"
    using detect_counters [of stub_backend_server toy_cv2 "blank_image 480 640" _ 10 12 _
        "\<lambda>name t. Inr two_row_outputs"
        "fst (projr (preprocess_image toy_cv2 stub_backend_server (blank_image 480 640)))"
        1 "(0, 80)" two_row_outputs] sb ppb
    by (simp add: blank_image_def)
  have c4: "detect toy_cv2 failing_backend_server (blank_image 480 640) 10 12 =
     ([], failing_backend_server)"
    using detect_counters [of failing_backend_server toy_cv2 "blank_image 480 640" _ 10 12 BackendError
        "\<lambda>name t. Inl BackendError"
        "fst (projr (preprocess_image toy_cv2 failing_backend_server (blank_image 480 640)))"
        1 "(0, 80)"] sf ppf
    by simp
  have c5: "detect toy_cv2 stub_backend_server (blank_image 1 2000) 10 12 = ([], stub_backend_server)"
    using detect_counters [of stub_backend_server toy_cv2 "blank_image 1 2000" _ 10 12 CvError
        "\<lambda>name t. Inr two_row_outputs"] sb ppr
    by simp
  have len: "length (postprocess_detections stub_backend_server two_row_outputs (480, 640) 1 (0, 80)) = 2"
    by (simp add: length_postprocess two_row_outputs_def two_row_predictions_def
        array_of_rows_def stub_backend_server_def init_server_def class_scores_def np_max_def)
  have m1: "map_sum id snd (preprocess_image toy_cv2 stub_backend_server (blank_image 480 640)) =
     Inr (1, (0, 80))" by (subst ppb) simp
  have m2: "map_sum id snd (preprocess_image toy_cv2 failing_backend_server (blank_image 480 640)) =
     Inr (1, (0, 80))" by (subst ppf) simp
  from s0(1) fallback_toy [of ?s0] c1 fallback_toy_empty [of ?s0] c2 sb(1) m1 c3 len sf(1) m2 c4 ppr c5
  show ?thesis by (intro conjI)
qed

text \<open>
  A backend that raises: the call returns the empty list, and the counters of the server
  still read zero afterwards.
\<close>

theorem detect_failure_leaves_counters:
  "session failing_backend_server = Some (\<lambda>name t. Inl BackendError) \<and>
   map_sum id snd (preprocess_image toy_cv2 failing_backend_server (blank_image 480 640)) =
     Inr (1, (0, 80)) \<and>
   fst (detect toy_cv2 failing_backend_server (blank_image 480 640) 10 12) = [] \<and>
   inference_count failing_backend_server = 0 \<and>
   inference_count (snd (detect toy_cv2 failing_backend_server (blank_image 480 640) 10 12)) = 0 \<and>
   total_inference_time (snd (detect toy_cv2 failing_backend_server (blank_image 480 640) 10 12)) = 0"
proof -
  have sf: "session failing_backend_server = Some (\<lambda>name t. Inl BackendError)"
    "input_shape failing_backend_server = (640, 640)"
    "inference_count failing_backend_server = 0" "total_inference_time failing_backend_server = 0"
    by (simp_all add: failing_backend_server_def init_server_def)
  note ppf = preprocess_toy_640_480 [OF sf(2)]
  have m2: "map_sum id snd (preprocess_image toy_cv2 failing_backend_server (blank_image 480 640)) =
     Inr (1, (0, 80))" by (subst ppf) simp
  have "detect toy_cv2 failing_backend_server (blank_image 480 640) 10 12 =
     ([], failing_backend_server)"
    by (rule detect_backend_raises [OF sf(1) ppf]) simp
  with sf m2 show ?thesis by simp
qed

end
